theory Spec2Isabelle
  imports Main
begin

section \<open>Airtable MCP: table directory and federated search\<close>

text \<open>
  A shallow embedding of the table-name resolver (\<open>refreshTableCache\<close>,
  \<open>resolveTableId\<close>), the formula builder (\<open>escapeForFormula\<close>,
  \<open>buildFormulaFromFields\<close>, \<open>buildSearchFormula\<close>), \<open>searchOneTable\<close> and the
  \<open>search\<close> tool of the worker.

  The remote service and the clock are not part of the program. They are parameters:
  a \<open>remote\<close> gives, for every request, the reply the service would send when the request
  is the \<open>k\<close>-th event of the run, and the value \<open>Date.now()\<close> has after \<open>k\<close> events.
  Every theorem holds for every remote. The program's own effects are explicit: the
  module-level variable \<open>tableCache\<close> and the trace of requests and delays are the two
  fields of the \<open>world\<close> each function takes and returns.
\<close>

subsection \<open>Data\<close>

text \<open>
  A field and a table of the metadata listing. A name, an id or a type that the
  listing leaves out and one that is the empty string are both falsy in the source and
  never equal to a resolved id or to a type of the allow-list, so the empty string stands
  for both; only a field's name is read as a value (\<open>f?.name\<close> inside a template), so
  there \<open>None\<close> is kept and prints as \<open>undefined\<close>.
\<close>

record field_meta =
  f_name :: "string option"
  f_type :: string

record table_meta =
  t_id :: string
  t_name :: string
  t_fields :: "field_meta list"

text \<open>
  The \<open>tables\<close> member of a parsed metadata body: missing (or any falsy value), a truthy
  value that is not an array (taken without a member \<open>0\<close>, as a number or \<open>true\<close> is), or
  an array of tables. An entry of the array that is \<open>null\<close> behaves as a table without
  name, id and fields, and is modelled as one.
\<close>

datatype tables_member = NoTables | BadTables | Tables "table_meta list"

text \<open>A record of a listing, and the \<open>records\<close> member of a parsed listing body.\<close>

record raw_record =
  rec_id :: string
  rec_fields :: "(string \<times> string) list"
  rec_createdTime :: string

text \<open>An entry of the array may be \<open>null\<close>; reading \<open>rec.id\<close> from it throws.\<close>

datatype records_member = NoRecords | BadRecords | Records "raw_record option list"

record records_body =
  records :: records_member
  body_offset :: "string option"

text \<open>
  What \<open>airtableFetch\<close> followed by \<open>r.json()\<close> yields: the fetch rejects, the body is
  not JSON, or a parsed body. A reply with an error status still has a parsed body.
\<close>

datatype 'a reply = Transport | Malformed | Body 'a

text \<open>The query string of a listing call, one field for each key the source may set.\<close>

record list_query =
  qs_maxRecords :: int
  qs_pageSize :: "nat option"
  qs_offset :: "string option"
  qs_filterByFormula :: "string option"

datatype request =
    MetaTables string
  | ListRecords string string list_query

datatype event = Fetch request | Sleep nat

datatype error = TransportError | SyntaxError | TypeError | Error string

record table_cache =
  ts :: int
  byName :: "string \<rightharpoonup> string"

record world =
  tableCache :: "table_cache option"
  trace :: "event list"

record remote =
  metaReply :: "nat \<Rightarrow> string \<Rightarrow> tables_member reply"
  listReply :: "nat \<Rightarrow> string \<Rightarrow> string \<Rightarrow> list_query \<Rightarrow> records_body reply"
  clock :: "nat \<Rightarrow> int"

text \<open>The result of \<open>getEnv\<close>, less the credential.\<close>

record config =
  AIRTABLE_BASE_ID :: string
  DEFAULT_TABLE :: "string option"
  ALLOWED_TABLES :: "(string \<rightharpoonup> string) option"

record hit =
  hit_id :: string
  hit_table :: string
  hit_fields :: "(string \<times> string) list"
  hit_createdTime :: string

record search_result =
  hits :: "hit list"
  next_offset :: "string option"

subsection \<open>HTTP helper\<close>

text \<open>
  A call appends the request to the trace, also when it fails. The reply is the one the
  remote has for the position of the request in the trace.
\<close>

definition of_reply :: "'a reply \<Rightarrow> error + 'a" where
  "of_reply r = (case r of Transport \<Rightarrow> Inl TransportError | Malformed \<Rightarrow> Inl SyntaxError | Body b \<Rightarrow> Inr b)"

definition fetchMeta :: "remote \<Rightarrow> config \<Rightarrow> world \<Rightarrow> (error + tables_member) \<times> world" where
  "fetchMeta R cfg w =
     (of_reply (metaReply R (length (trace w)) (AIRTABLE_BASE_ID cfg)),
      w\<lparr>trace := trace w @ [Fetch (MetaTables (AIRTABLE_BASE_ID cfg))]\<rparr>)"

definition fetchRecords :: "remote \<Rightarrow> string \<Rightarrow> string \<Rightarrow> list_query \<Rightarrow> world \<Rightarrow> (error + records_body) \<times> world" where
  "fetchRecords R baseId tbl qs w =
     (of_reply (listReply R (length (trace w)) baseId tbl qs),
      w\<lparr>trace := trace w @ [Fetch (ListRecords baseId tbl qs)]\<rparr>)"


subsection \<open>Table name to table id, with the cache\<close>

definition add_table :: "(string \<rightharpoonup> string) \<Rightarrow> table_meta \<Rightarrow> (string \<rightharpoonup> string)" where
  "add_table m t = (if t_name t \<noteq> [] \<and> t_id t \<noteq> [] then m(t_name t \<mapsto> t_id t) else m)"

definition refreshTableCache :: "remote \<Rightarrow> config \<Rightarrow> world \<Rightarrow> (error + table_cache) \<times> world" where
  "refreshTableCache R cfg w =
     (let seed = (case ALLOWED_TABLES cfg of Some a \<Rightarrow> a | None \<Rightarrow> Map.empty)
      in case fetchMeta R cfg w of
           (Inl e, w1) \<Rightarrow> (Inl e, w1)
         | (Inr data, w1) \<Rightarrow>
             (let m = (case data of Tables tbls \<Rightarrow> foldl add_table seed tbls | _ \<Rightarrow> seed);
                  c = \<lparr>ts = clock R (length (trace w1)), byName = m\<rparr>
              in (Inr c, w1\<lparr>tableCache := Some c\<rparr>)))"

definition is_alnum :: "char \<Rightarrow> bool" where
  "is_alnum c = (let n = (of_char c :: nat)
                 in (48 \<le> n \<and> n \<le> 57) \<or> (65 \<le> n \<and> n \<le> 90) \<or> (97 \<le> n \<and> n \<le> 122))"

text \<open>The test \<open>/^tbl[a-zA-Z0-9]{10,}$/\<close>.\<close>

definition is_table_id :: "string \<Rightarrow> bool" where
  "is_table_id s = (take 3 s = ''tbl'' \<and> 10 \<le> length (drop 3 s) \<and> list_all is_alnum (drop 3 s))"

text \<open>
  \<open>tableCache!.byName[k]\<close> followed by the test \<open>!id\<close>: an entry whose id is the empty
  string counts as a miss. The map is the \<open>Record<string, string>\<close> of the source's type;
  the properties every JavaScript object inherits are not part of it.
\<close>

definition cache_lookup :: "table_cache \<Rightarrow> string \<Rightarrow> string option" where
  "cache_lookup c k = (case byName c k of None \<Rightarrow> None | Some i \<Rightarrow> if i = [] then None else Some i)"

definition not_found :: "string \<Rightarrow> error" where
  "not_found tableOrId = Error (''Table not found by name: '' @ tableOrId)"

definition stale :: "int \<Rightarrow> table_cache option \<Rightarrow> bool" where
  "stale now c = (case c of None \<Rightarrow> True | Some tc \<Rightarrow> now - ts tc > 5 * 60000)"

text \<open>The first step of \<open>resolveTableId\<close>: refresh when there is no cache or it is older than five minutes.\<close>

definition ensure_fresh :: "remote \<Rightarrow> config \<Rightarrow> world \<Rightarrow> (error + unit) \<times> world" where
  "ensure_fresh R cfg w =
     (let now = clock R (length (trace w))
      in if stale now (tableCache w)
         then (case refreshTableCache R cfg w of
                 (Inl e, w') \<Rightarrow> (Inl e, w') | (Inr _, w') \<Rightarrow> (Inr (), w'))
         else (Inr (), w))"

definition resolveTableId :: "remote \<Rightarrow> config \<Rightarrow> string \<Rightarrow> world \<Rightarrow> (error + string) \<times> world" where
  "resolveTableId R cfg tableOrId w =
     (if is_table_id tableOrId then (Inr tableOrId, w)
      else
        case ensure_fresh R cfg w of
          (Inl e, w1) \<Rightarrow> (Inl e, w1)
        | (Inr _, w1) \<Rightarrow>
            (case tableCache w1 of
               None \<Rightarrow> (Inl TypeError, w1)
             | Some c1 \<Rightarrow>
                 (case cache_lookup c1 tableOrId of
                    Some i \<Rightarrow> (Inr i, w1)
                  | None \<Rightarrow>
                      (case refreshTableCache R cfg w1 of
                         (Inl e, w2) \<Rightarrow> (Inl e, w2)
                       | (Inr _, w2) \<Rightarrow>
                           (case tableCache w2 of
                              None \<Rightarrow> (Inl TypeError, w2)
                            | Some c2 \<Rightarrow>
                                (case cache_lookup c2 tableOrId of
                                   Some i2 \<Rightarrow> (Inr i2, w2)
                                 | None \<Rightarrow> (Inl (not_found tableOrId), w2)))))))"

subsection \<open>Search formula\<close>

definition replace_all :: "char \<Rightarrow> string \<Rightarrow> string \<Rightarrow> string" where
  "replace_all x r s = concat (map (\<lambda>c. if c = x then r else [c]) s)"

definition backslash :: char where
  "backslash = CHR 0x5C"

definition dquote :: char where
  "dquote = CHR 0x22"

definition escapeForFormula :: "string \<Rightarrow> string" where
  "escapeForFormula s =
     replace_all dquote [backslash, dquote] (replace_all backslash [backslash, backslash] s)"

fun join :: "string \<Rightarrow> string list \<Rightarrow> string" where
  "join sep [] = []"
| "join sep [x] = x"
| "join sep (x # y # ys) = x @ sep @ join sep (y # ys)"

definition search_part :: "string \<Rightarrow> string \<Rightarrow> string" where
  "search_part qq n = ''SEARCH('' @ [dquote] @ qq @ [dquote] @ '', {'' @ n @ ''} & '' @ [dquote, dquote] @ '')''"

definition buildFormulaFromFields :: "string \<Rightarrow> string list \<Rightarrow> string" where
  "buildFormulaFromFields q fieldNames =
     (let qq = escapeForFormula q;
          parts = map (search_part qq) fieldNames
      in if parts \<noteq> [] then ''OR('' @ join '','' parts @ '')'' else [])"

definition text_types :: "string list" where
  "text_types = [''singleLineText'', ''multilineText'', ''richText'', ''email'', ''url'']"

text \<open>A missing field name is interpolated as \<open>undefined\<close>.\<close>

definition name_text :: "string option \<Rightarrow> string" where
  "name_text n = (case n of None \<Rightarrow> ''undefined'' | Some s \<Rightarrow> s)"

definition text_fields :: "table_meta option \<Rightarrow> string list" where
  "text_fields tbl =
     take 12 (map (\<lambda>f. name_text (f_name f))
                (filter (\<lambda>f. f_type f \<in> set text_types)
                   (case tbl of None \<Rightarrow> [] | Some t \<Rightarrow> t_fields t)))"

definition buildSearchFormula ::
    "remote \<Rightarrow> config \<Rightarrow> string \<Rightarrow> string \<Rightarrow> string list option \<Rightarrow> world \<Rightarrow> (error + string) \<times> world" where
  "buildSearchFormula R cfg tableNameOrId q fieldsToSearch w =
     (case fieldsToSearch of
        Some (f # fs) \<Rightarrow> (Inr (buildFormulaFromFields q (f # fs)), w)
      | _ \<Rightarrow>
          (case resolveTableId R cfg tableNameOrId w of
             (Inl e, w1) \<Rightarrow> (Inl e, w1)
           | (Inr tableId, w1) \<Rightarrow>
               (case fetchMeta R cfg w1 of
                  (Inl e, w2) \<Rightarrow> (Inl e, w2)
                | (Inr data, w2) \<Rightarrow>
                    (case data of
                       BadTables \<Rightarrow> (Inl TypeError, w2)
                     | NoTables \<Rightarrow> (Inr (buildFormulaFromFields q (text_fields None)), w2)
                     | Tables tbls \<Rightarrow>
                         (Inr (buildFormulaFromFields q
                                 (text_fields (find (\<lambda>t. t_id t = tableId) tbls))), w2)))))"

subsection \<open>Searching one table\<close>

record search_params =
  p_baseId :: string
  p_tableNameOrId :: string
  p_q :: string
  p_maxRecords :: int
  p_pageSize :: "nat option"
  p_offset :: "string option"
  p_fieldsToSearch :: "string list option"

text \<open>The tests \<open>if (pageSize)\<close> and \<open>if (offset)\<close>: zero and the empty string are falsy.\<close>

definition truthy_num :: "nat option \<Rightarrow> nat option" where
  "truthy_num n = (case n of Some k \<Rightarrow> if k = 0 then None else Some k | None \<Rightarrow> None)"

definition truthy_str :: "string option \<Rightarrow> string option" where
  "truthy_str s = (case s of Some x \<Rightarrow> if x = [] then None else Some x | None \<Rightarrow> None)"

definition to_hit :: "string \<Rightarrow> raw_record \<Rightarrow> hit" where
  "to_hit tableNameOrId r =
     \<lparr>hit_id = rec_id r, hit_table = tableNameOrId, hit_fields = rec_fields r,
      hit_createdTime = rec_createdTime r\<rparr>"

fun to_hits :: "string \<Rightarrow> raw_record option list \<Rightarrow> error + hit list" where
  "to_hits t [] = Inr []"
| "to_hits t (None # rs) = Inl TypeError"
| "to_hits t (Some r # rs) =
     (case to_hits t rs of Inl e \<Rightarrow> Inl e | Inr hs \<Rightarrow> Inr (to_hit t r # hs))"

definition searchOneTable :: "remote \<Rightarrow> config \<Rightarrow> search_params \<Rightarrow> world \<Rightarrow> (error + search_result) \<times> world" where
  "searchOneTable R cfg p w =
     (let (fr, w1) = buildSearchFormula R cfg (p_tableNameOrId p) (p_q p) (p_fieldsToSearch p) w;
          formula = (case fr of Inl _ \<Rightarrow> [] | Inr f \<Rightarrow> f);
          qs = \<lparr>qs_maxRecords = p_maxRecords p,
                qs_pageSize = truthy_num (p_pageSize p),
                qs_offset = truthy_str (p_offset p),
                qs_filterByFormula = (if formula \<noteq> [] then Some formula else None)\<rparr>
      in case fetchRecords R (p_baseId p) (p_tableNameOrId p) qs w1 of
           (Inl e, w2) \<Rightarrow> (Inl e, w2)
         | (Inr data, w2) \<Rightarrow>
             (case records data of
                NoRecords \<Rightarrow> (Inr \<lparr>hits = [], next_offset = body_offset data\<rparr>, w2)
              | BadRecords \<Rightarrow> (Inl TypeError, w2)
              | Records rs \<Rightarrow>
                  (case to_hits (p_tableNameOrId p) rs of
                     Inl e \<Rightarrow> (Inl e, w2)
                   | Inr hs \<Rightarrow> (Inr \<lparr>hits = hs, next_offset = body_offset data\<rparr>, w2))))"

subsection \<open>The search tool\<close>
















subsection \<open>Notions used in the statements\<close>

text \<open>The characters of the class \<open>[A-Za-z0-9]\<close>.\<close>

definition alnum_chars :: string where
  "alnum_chars = ''ABCDEFGHIJKLMNOPQRSTUVWXYZabcdefghijklmnopqrstuvwxyz0123456789''"







text \<open>The query string without a \<open>filterByFormula\<close> key.\<close>

definition unfiltered :: "search_params \<Rightarrow> list_query" where
  "unfiltered p = \<lparr>qs_maxRecords = p_maxRecords p, qs_pageSize = truthy_num (p_pageSize p),
                   qs_offset = truthy_str (p_offset p), qs_filterByFormula = None\<rparr>"




text \<open>
  What a trace shows of the schedule: the table of each listing request, and each delay.
  The metadata requests of the formula builder are left out.
\<close>

datatype sched_event = Query string | Delay nat

fun view_event :: "event \<Rightarrow> sched_event list" where
  "view_event (Fetch (ListRecords b t q)) = [Query t]"
| "view_event (Fetch (MetaTables b)) = []"
| "view_event (Sleep ms) = [Delay ms]"

definition batch_view :: "event list \<Rightarrow> sched_event list" where
  "batch_view evs = concat (map view_event evs)"



subsection \<open>Concrete inputs\<close>

definition w0 :: world where
  "w0 = \<lparr>tableCache = None, trace = []\<rparr>"

definition cfg0 :: config where
  "cfg0 = \<lparr>AIRTABLE_BASE_ID = ''appDemo'', DEFAULT_TABLE = None,
           ALLOWED_TABLES = Some [''Tasks'' \<mapsto> ''tblSeedTasks01'', ''Archive'' \<mapsto> ''tblSeedArchiv1'']\<rparr>"

definition live_tables :: "table_meta list" where
  "live_tables =
     [\<lparr>t_id = ''tblLiveTasks01'', t_name = ''Tasks'', t_fields = []\<rparr>,
      \<lparr>t_id = ''tblLiveNotes01'', t_name = ''Notes'', t_fields = []\<rparr>]"

definition R_live :: remote where
  "R_live = \<lparr>metaReply = (\<lambda>k b. Body (Tables live_tables)),
             listReply = (\<lambda>k b t q. Transport),
             clock = (\<lambda>k. 1000 * int k)\<rparr>"





definition rec_of :: "string \<Rightarrow> raw_record" where
  "rec_of n = \<lparr>rec_id = ''rec'' @ n, rec_fields = [], rec_createdTime = []\<rparr>"




definition fld :: "string \<Rightarrow> string \<Rightarrow> field_meta" where
  "fld n ty = \<lparr>f_name = Some n, f_type = ty\<rparr>"

definition schema_fields :: "field_meta list" where
  "schema_fields =
     [fld ''F01'' ''singleLineText'', fld ''Count'' ''number'', fld ''F02'' ''multilineText'',
      fld ''F03'' ''richText'', fld ''F04'' ''email'', fld ''F05'' ''url'',
      fld ''Done'' ''checkbox'', fld ''F06'' ''singleLineText'', fld ''F07'' ''singleLineText'',
      fld ''F08'' ''singleLineText'', fld ''F09'' ''singleLineText'', fld ''F10'' ''singleLineText'',
      fld ''F11'' ''singleLineText'', fld ''F12'' ''singleLineText'', fld ''F13'' ''singleLineText'']"

definition schema_tables :: "table_meta list" where
  "schema_tables =
     [\<lparr>t_id = ''tblLiveNotes01'', t_name = ''Notes'', t_fields = [fld ''Body'' ''richText'']\<rparr>,
      \<lparr>t_id = ''tblLiveTasks01'', t_name = ''Tasks'', t_fields = schema_fields\<rparr>]"

definition R_schema :: remote where
  "R_schema = \<lparr>metaReply = (\<lambda>k b. Body (Tables schema_tables)),
               listReply = (\<lambda>k b t q. Transport),
               clock = (\<lambda>k. 0)\<rparr>"

definition R_down :: remote where
  "R_down = \<lparr>metaReply = (\<lambda>k b. Transport),
             listReply = (\<lambda>k b t q. Body \<lparr>records = Records [Some (rec_of t)], body_offset = None\<rparr>),
             clock = (\<lambda>k. 0)\<rparr>"

definition p_tasks :: search_params where
  "p_tasks = \<lparr>p_baseId = ''appDemo'', p_tableNameOrId = ''Tasks'', p_q = ''x'', p_maxRecords = 5,
              p_pageSize = None, p_offset = None, p_fieldsToSearch = None\<rparr>"



section \<open>Properties\<close>

subsection \<open>Identifier-shaped inputs\<close>

lemma is_alnum_chars: "c \<in> set alnum_chars \<Longrightarrow> is_alnum c"
  by (auto simp: alnum_chars_def is_alnum_def)

lemma is_table_idI:
  assumes "s = ''tbl'' @ rest" and "10 \<le> length rest" and "set rest \<subseteq> set alnum_chars"
  shows "is_table_id s"
  using assms is_alnum_chars by (auto simp: is_table_id_def list_all_iff)

text \<open>
  C2. An input made of \<open>tbl\<close> and at least ten letters or digits is returned as it is, in
  the world it was given: the trace has no new request and the cache is the same, whatever
  the cache, the remote and the configuration are.
\<close>

theorem resolve_identifier_unchanged:
  assumes "s = ''tbl'' @ rest" and "10 \<le> length rest" and "set rest \<subseteq> set alnum_chars"
  shows "resolveTableId R cfg s w = (Inr s, w)"
  using is_table_idI[OF assms] by (simp add: resolveTableId_def)

theorem resolve_identifier_unchanged_witness:
  "resolveTableId R_live cfg0 ''tblLiveTasks01'' w0 = (Inr ''tblLiveTasks01'', w0)"
  using resolve_identifier_unchanged[of "''tblLiveTasks01''" "''LiveTasks01''" R_live cfg0 w0]
  by (simp add: alnum_chars_def)

subsection \<open>Refreshing the cache\<close>








subsection \<open>Resolving a name\<close>











subsection \<open>The formula from explicit fields\<close>




subsection \<open>The formula from the schema\<close>

lemma fetchMeta_body:
  "metaReply R (length (trace w)) (AIRTABLE_BASE_ID cfg) = Body b \<Longrightarrow>
   fetchMeta R cfg w = (Inr b, w\<lparr>trace := trace w @ [Fetch (MetaTables (AIRTABLE_BASE_ID cfg))]\<rparr>)"
  by (simp add: fetchMeta_def of_reply_def)

text \<open>
  C8. Without explicit fields (none, or an empty list), once the table is resolved the
  builder makes one metadata request and, from its table list, builds the formula over the
  fields of the first table whose id is the resolved id: those whose type is one of the five
  text types, in the order of the schema, cut after the twelfth. A table that is not in the
  list gives no fields.
\<close>

theorem discovered_fields_formula:
  assumes "fts = None \<or> fts = Some []"
    and "resolveTableId R cfg t w = (Inr tid, w1)"
    and "metaReply R (length (trace w1)) (AIRTABLE_BASE_ID cfg) = Body (Tables tbls)"
  shows "\<exists>sel. buildSearchFormula R cfg t q fts w =
                 (Inr (buildFormulaFromFields q sel),
                  w1\<lparr>trace := trace w1 @ [Fetch (MetaTables (AIRTABLE_BASE_ID cfg))]\<rparr>)
             \<and> sel = take 12 (map (\<lambda>f. name_text (f_name f))
                          (filter (\<lambda>f. f_type f \<in> {''singleLineText'', ''multilineText'', ''richText'', ''email'', ''url''})
                             (case find (\<lambda>e. t_id e = tid) tbls of None \<Rightarrow> [] | Some e \<Rightarrow> t_fields e)))
             \<and> length sel \<le> 12"
proof -
  have "buildSearchFormula R cfg t q fts w =
          (Inr (buildFormulaFromFields q (text_fields (find (\<lambda>e. t_id e = tid) tbls))),
           w1\<lparr>trace := trace w1 @ [Fetch (MetaTables (AIRTABLE_BASE_ID cfg))]\<rparr>)"
    using assms(1)
    by (auto simp: buildSearchFormula_def assms(2) fetchMeta_body[OF assms(3)])
  moreover have "text_fields (find (\<lambda>e. t_id e = tid) tbls) =
      take 12 (map (\<lambda>f. name_text (f_name f))
                          (filter (\<lambda>f. f_type f \<in> {''singleLineText'', ''multilineText'', ''richText'', ''email'', ''url''})
                             (case find (\<lambda>e. t_id e = tid) tbls of None \<Rightarrow> [] | Some e \<Rightarrow> t_fields e)))"
    by (simp add: text_fields_def text_types_def)
  moreover have "length (text_fields (find (\<lambda>e. t_id e = tid) tbls)) \<le> 12"
    by (simp add: text_fields_def)
  ultimately show ?thesis by simp
qed

theorem discovered_fields_formula_witness:
  "resolveTableId R_schema cfg0 ''tblLiveTasks01'' w0 = (Inr ''tblLiveTasks01'', w0)
   \<and> metaReply R_schema (length (trace w0)) (AIRTABLE_BASE_ID cfg0) = Body (Tables schema_tables)
   \<and> buildSearchFormula R_schema cfg0 ''tblLiveTasks01'' ''x'' None w0 =
       (Inr (buildFormulaFromFields ''x''
               [''F01'', ''F02'', ''F03'', ''F04'', ''F05'', ''F06'', ''F07'', ''F08'', ''F09'',
                ''F10'', ''F11'', ''F12'']),
        \<lparr>tableCache = None, trace = [Fetch (MetaTables ''appDemo'')]\<rparr>)"
proof -
  have "is_table_id ''tblLiveTasks01''"
    by (rule is_table_idI[of _ "''LiveTasks01''"]) (simp_all add: alnum_chars_def)
  then have r: "resolveTableId R_schema cfg0 ''tblLiveTasks01'' w0 = (Inr ''tblLiveTasks01'', w0)"
    by (simp add: resolveTableId_def)
  have m: "metaReply R_schema (length (trace w0)) (AIRTABLE_BASE_ID cfg0) = Body (Tables schema_tables)"
    by (simp add: R_schema_def)
  from discovered_fields_formula[OF disjI1[OF refl] r m, of "''x''"]
  have "buildSearchFormula R_schema cfg0 ''tblLiveTasks01'' ''x'' None w0 =
       (Inr (buildFormulaFromFields ''x''
               [''F01'', ''F02'', ''F03'', ''F04'', ''F05'', ''F06'', ''F07'', ''F08'', ''F09'',
                ''F10'', ''F11'', ''F12'']),
        \<lparr>tableCache = None, trace = [Fetch (MetaTables ''appDemo'')]\<rparr>)"
    by (simp add: schema_tables_def schema_fields_def fld_def name_text_def w0_def cfg0_def)
  with r m show ?thesis by blast
qed

subsection \<open>Searching one table without a formula\<close>

lemma to_hits_Some: "to_hits t (map Some rs) = Inr (map (to_hit t) rs)"
  by (induction rs) auto

text \<open>
  C9. When the construction of the formula fails, or yields the empty formula (as it does
  for an empty list of fields), \<open>searchOneTable\<close> still makes the listing call, as the next
  request after those of the construction, and its query string has no \<open>filterByFormula\<close>;
  a reply with records then gives the hits of those records, not an error.
\<close>

theorem search_without_formula:
  assumes "buildSearchFormula R cfg (p_tableNameOrId p) (p_q p) (p_fieldsToSearch p) w = (fr, w1)"
    and "(\<exists>e. fr = Inl e) \<or> fr = Inr []"
  shows "trace (snd (searchOneTable R cfg p w)) =
           trace w1 @ [Fetch (ListRecords (p_baseId p) (p_tableNameOrId p) (unfiltered p))]
       \<and> (\<forall>rs off. listReply R (length (trace w1)) (p_baseId p) (p_tableNameOrId p) (unfiltered p) =
                      Body \<lparr>records = Records (map Some rs), body_offset = off\<rparr> \<longrightarrow>
                    fst (searchOneTable R cfg p w) =
                      Inr \<lparr>hits = map (to_hit (p_tableNameOrId p)) rs, next_offset = off\<rparr>)
       \<and> buildFormulaFromFields (p_q p) [] = []"
proof -
  have f: "(case fr of Inl _ \<Rightarrow> [] | Inr f \<Rightarrow> f) = []"
    using assms(2) by auto
  have s: "searchOneTable R cfg p w =
          (case fetchRecords R (p_baseId p) (p_tableNameOrId p) (unfiltered p) w1 of
           (Inl e, w2) \<Rightarrow> (Inl e, w2)
         | (Inr data, w2) \<Rightarrow>
             (case records data of
                NoRecords \<Rightarrow> (Inr \<lparr>hits = [], next_offset = body_offset data\<rparr>, w2)
              | BadRecords \<Rightarrow> (Inl TypeError, w2)
              | Records rs \<Rightarrow>
                  (case to_hits (p_tableNameOrId p) rs of
                     Inl e \<Rightarrow> (Inl e, w2)
                   | Inr hs \<Rightarrow> (Inr \<lparr>hits = hs, next_offset = body_offset data\<rparr>, w2))))"
    by (simp add: searchOneTable_def assms(1) f unfiltered_def)
  have "trace (snd (searchOneTable R cfg p w)) =
           trace w1 @ [Fetch (ListRecords (p_baseId p) (p_tableNameOrId p) (unfiltered p))]"
    unfolding s
    by (simp add: fetchRecords_def split: sum.splits records_member.splits)
  moreover have "\<forall>rs off. listReply R (length (trace w1)) (p_baseId p) (p_tableNameOrId p) (unfiltered p) =
                      Body \<lparr>records = Records (map Some rs), body_offset = off\<rparr> \<longrightarrow>
                    fst (searchOneTable R cfg p w) =
                      Inr \<lparr>hits = map (to_hit (p_tableNameOrId p)) rs, next_offset = off\<rparr>"
    unfolding s
    by (simp add: fetchRecords_def of_reply_def to_hits_Some)
  moreover have "buildFormulaFromFields (p_q p) [] = []"
    by (simp add: buildFormulaFromFields_def)
  ultimately show ?thesis by blast
qed

theorem search_without_formula_witness:
  "fst (buildSearchFormula R_down cfg0 (p_tableNameOrId p_tasks) (p_q p_tasks) (p_fieldsToSearch p_tasks) w0) =
     Inl TransportError
   \<and> fst (searchOneTable R_down cfg0 p_tasks w0) =
       Inr \<lparr>hits = [to_hit ''Tasks'' (rec_of ''Tasks'')], next_offset = None\<rparr>
   \<and> trace (snd (searchOneTable R_down cfg0 p_tasks w0)) =
       [Fetch (MetaTables ''appDemo''),
        Fetch (ListRecords ''appDemo'' ''Tasks''
                 \<lparr>qs_maxRecords = 5, qs_pageSize = None, qs_offset = None, qs_filterByFormula = None\<rparr>)]"
proof -
  define w1 where "w1 = snd (buildSearchFormula R_down cfg0 (p_tableNameOrId p_tasks) (p_q p_tasks) (p_fieldsToSearch p_tasks) w0)"
  have f: "fst (buildSearchFormula R_down cfg0 (p_tableNameOrId p_tasks) (p_q p_tasks) (p_fieldsToSearch p_tasks) w0) =
     Inl TransportError"
    by code_simp
  have t: "trace w1 = [Fetch (MetaTables ''appDemo'')]"
    unfolding w1_def by code_simp
  have b: "buildSearchFormula R_down cfg0 (p_tableNameOrId p_tasks) (p_q p_tasks) (p_fieldsToSearch p_tasks) w0 =
             (Inl TransportError, w1)"
    using f by (simp add: w1_def prod_eq_iff)
  have l: "listReply R_down (length (trace w1)) (p_baseId p_tasks) (p_tableNameOrId p_tasks) (unfiltered p_tasks) =
                      Body \<lparr>records = Records (map Some [rec_of ''Tasks'']), body_offset = None\<rparr>"
    by (simp add: R_down_def p_tasks_def)
  from search_without_formula[OF b disjI1[OF exI[of _ TransportError, OF refl]]] l
  have "fst (searchOneTable R_down cfg0 p_tasks w0) =
       Inr \<lparr>hits = map (to_hit (p_tableNameOrId p_tasks)) [rec_of ''Tasks''], next_offset = None\<rparr>"
    and "trace (snd (searchOneTable R_down cfg0 p_tasks w0)) =
           trace w1 @ [Fetch (ListRecords (p_baseId p_tasks) (p_tableNameOrId p_tasks) (unfiltered p_tasks))]"
    by blast+
  then show ?thesis
    using f t by (simp add: p_tasks_def unfiltered_def truthy_num_def truthy_str_def)
qed

subsection \<open>The search tool without a table\<close>




subsection \<open>Federated search: the loop\<close>




lemma batch_view_append [simp]: "batch_view (xs @ ys) = batch_view xs @ batch_view ys"
  by (simp add: batch_view_def)

lemma batch_view_metas [simp]: "batch_view (replicate k (Fetch (MetaTables b))) = []"
  by (induction k) (simp_all add: batch_view_def)
























subsection \<open>Federated search: batches, failures, order\<close>









end
